theory Spec2Isabelle
  imports Main "HOL-Library.Word"
begin

section \<open>Heartbeat animation on the 8x12 LED matrix (MatrixAnimation.cpp)\<close>

subsection \<open>Data: bytes, frames, timings\<close>

text \<open>
  Arduino's \<^verbatim>\<open>byte\<close> is an unsigned 8-bit integer; \<^verbatim>\<open>unsigned long\<close> is 32 bits wide on
  the boards that carry the LED matrix. A \<^verbatim>\<open>byte[8][12]\<close> array is a list of rows, each a
  list of cells, indexed \<open>f ! row ! column\<close>.
\<close>

type_synonym byte = "8 word"
type_synonym frame = "byte list list"

text \<open>
  C++ aggregate initialisation of a \<^verbatim>\<open>byte[8][12]\<close>: the initialisers that are written fill
  the leading cells of the leading rows, every cell left without one is zero.
\<close>

definition aggregate_init_row :: "byte list \<Rightarrow> byte list" where
  "aggregate_init_row xs = xs @ replicate (12 - length xs) 0"

definition aggregate_init :: "byte list list \<Rightarrow> frame" where
  "aggregate_init rows =
     map aggregate_init_row rows @ replicate (8 - length rows) (replicate 12 0)"

definition frame_full :: frame where
  "frame_full = aggregate_init
    [[0, 0, 1, 1, 0, 0, 0, 1, 1, 0, 0, 0],
     [0, 1, 1, 1, 1, 0, 1, 1, 1, 1, 0, 0],
     [0, 1, 1, 1, 1, 1, 1, 1, 1, 1, 0, 0],
     [0, 0, 1, 1, 1, 1, 1, 1, 1, 0, 0, 0],
     [0, 0, 0, 1, 1, 1, 1, 1, 0, 0, 0, 0],
     [0, 0, 0, 0, 1, 1, 1, 0, 0, 0, 0, 0],
     [0, 0, 0, 0, 0, 1, 0, 0, 0, 0, 0, 0],
     [0, 0, 0, 0, 0, 0, 0, 0, 0, 0, 0, 0]]"

definition frame_med :: frame where
  "frame_med = aggregate_init
    [[0, 0, 0, 1, 0, 0, 0, 1, 0, 0, 0, 0],
     [0, 0, 1, 1, 1, 0, 1, 1, 1, 0, 0, 0],
     [0, 0, 1, 1, 1, 1, 1, 1, 1, 0, 0, 0],
     [0, 0, 0, 1, 1, 1, 1, 1, 0, 0, 0, 0],
     [0, 0, 0, 0, 1, 1, 1, 0, 0, 0, 0, 0],
     [0, 0, 0, 0, 0, 1, 0, 0, 0, 0, 0, 0],
     [0, 0, 0, 0, 0, 0, 0, 0, 0, 0, 0, 0],
     [0, 0, 0, 0, 0, 0, 0, 0, 0, 0, 0, 0]]"

definition frame_small :: frame where
  "frame_small = aggregate_init
    [[0, 0, 0, 0, 0, 0, 0, 0, 0, 0, 0, 0],
     [0, 0, 0, 1, 0, 0, 0, 1, 0, 0, 0, 0],
     [0, 0, 0, 1, 1, 0, 1, 1, 0, 0, 0, 0],
     [0, 0, 0, 0, 1, 1, 1, 0, 0, 0, 0, 0],
     [0, 0, 0, 0, 0, 1, 0, 0, 0, 0, 0, 0],
     [0, 0, 0, 0, 0, 0, 0, 0, 0, 0, 0, 0],
     [0, 0, 0, 0, 0, 0, 0, 0, 0, 0, 0, 0],
     [0, 0, 0, 0, 0, 0, 0, 0, 0, 0, 0, 0]]"

definition frame_off :: frame where
  "frame_off = aggregate_init [[0]]"

definition SHORT :: "32 word" where
  "SHORT = 100"

definition SHORT_GAP :: "32 word" where
  "SHORT_GAP = 100"

definition LONG_GAP :: "32 word" where
  "LONG_GAP = 700"

subsection \<open>Properties of the bitmaps, as executable predicates\<close>

definition binary_8x12 :: "frame \<Rightarrow> bool" where
  "binary_8x12 f =
     (length f = 8 \<and> list_all (\<lambda>row. length row = 12 \<and> list_all (\<lambda>v. v = 0 \<or> v = 1) row) f)"

subsection \<open>The outside world: display driver and clock\<close>

text \<open>
  \<^verbatim>\<open>ArduinoLEDMatrix\<close> and \<^verbatim>\<open>delay\<close> belong to the Arduino core, not to this program. What
  the program does to them is observable as the sequence of calls it makes, each with the
  arguments it passes: \<^verbatim>\<open>matrix.begin()\<close>, \<^verbatim>\<open>matrix.renderBitmap(frame, rows, columns)\<close> with the
  cells the array holds at the moment of the call, and \<^verbatim>\<open>delay(ms)\<close>.
\<close>

datatype event = Begin | RenderBitmap frame nat nat | Delay "32 word"

text \<open>
  The program's state: its four global arrays (declared without \<^verbatim>\<open>const\<close>, so they are
  memory that a statement could write) and the log of the calls made so far on the global
  \<^verbatim>\<open>matrix\<close> object and on the clock.
\<close>

record state =
  mem_frame_full :: frame
  mem_frame_med :: frame
  mem_frame_small :: frame
  mem_frame_off :: frame
  trace :: "event list"

definition matrix_begin :: "state \<Rightarrow> state" where
  "matrix_begin s = s\<lparr>trace := trace s @ [Begin]\<rparr>"

definition matrix_renderBitmap :: "frame \<Rightarrow> nat \<Rightarrow> nat \<Rightarrow> state \<Rightarrow> state" where
  "matrix_renderBitmap f rows cols s = s\<lparr>trace := trace s @ [RenderBitmap f rows cols]\<rparr>"

definition delay :: "32 word \<Rightarrow> state \<Rightarrow> state" where
  "delay ms s = s\<lparr>trace := trace s @ [Delay ms]\<rparr>"

subsection \<open>The two entry points\<close>

definition initMatrix :: "state \<Rightarrow> state" where
  "initMatrix s = matrix_begin s"

definition updateMatrixAnimation :: "state \<Rightarrow> state" where
  "updateMatrixAnimation s0 =
     (let s1 = matrix_renderBitmap (mem_frame_small s0) 8 12 s0;
          s2 = delay SHORT s1;
          s3 = matrix_renderBitmap (mem_frame_med s2) 8 12 s2;
          s4 = delay SHORT_GAP s3;
          s5 = matrix_renderBitmap (mem_frame_full s4) 8 12 s4;
          s6 = delay SHORT s5;
          s7 = matrix_renderBitmap (mem_frame_med s6) 8 12 s6;
          s8 = delay LONG_GAP s7
      in matrix_renderBitmap (mem_frame_off s8) 8 12 s8)"

subsection \<open>Executions\<close>

text \<open>
  The state after static initialisation: every array holds its initialiser and nothing has
  been called yet. A caller can then invoke the two entry points in any order.
\<close>

definition boot :: state where
  "boot = \<lparr>mem_frame_full = frame_full, mem_frame_med = frame_med,
            mem_frame_small = frame_small, mem_frame_off = frame_off, trace = []\<rparr>"

datatype call = InitMatrix | UpdateMatrixAnimation

definition exec :: "call \<Rightarrow> state \<Rightarrow> state" where
  "exec c s = (case c of InitMatrix \<Rightarrow> initMatrix s | UpdateMatrixAnimation \<Rightarrow> updateMatrixAnimation s)"

definition run :: "call list \<Rightarrow> state \<Rightarrow> state" where
  "run cs s = fold exec cs s"

subsection \<open>Observations on a log\<close>

definition frames :: "state \<Rightarrow> frame \<times> frame \<times> frame \<times> frame" where
  "frames s = (mem_frame_full s, mem_frame_med s, mem_frame_small s, mem_frame_off s)"

text \<open>The calls an operation adds to the log when it is started in state \<open>s\<close>.\<close>

definition emitted :: "(state \<Rightarrow> state) \<Rightarrow> state \<Rightarrow> event list" where
  "emitted f s = drop (length (trace s)) (trace (f s))"

primrec delays :: "event list \<Rightarrow> 32 word list" where
  "delays [] = []"
| "delays (e # es) = (case e of Delay ms \<Rightarrow> ms # delays es | _ \<Rightarrow> delays es)"

primrec renders :: "event list \<Rightarrow> (frame \<times> nat \<times> nat) list" where
  "renders [] = []"
| "renders (e # es) =
     (case e of RenderBitmap f rows cols \<Rightarrow> (f, rows, cols) # renders es | _ \<Rightarrow> renders es)"

datatype step = BeginStep | RenderStep | DelayStep

primrec step_of :: "event \<Rightarrow> step" where
  "step_of Begin = BeginStep"
| "step_of (RenderBitmap f rows cols) = RenderStep"
| "step_of (Delay ms) = DelayStep"

section \<open>Auxiliary facts\<close>

lemma frame_full_cells:
  "frame_full =
    [[0, 0, 1, 1, 0, 0, 0, 1, 1, 0, 0, 0],
     [0, 1, 1, 1, 1, 0, 1, 1, 1, 1, 0, 0],
     [0, 1, 1, 1, 1, 1, 1, 1, 1, 1, 0, 0],
     [0, 0, 1, 1, 1, 1, 1, 1, 1, 0, 0, 0],
     [0, 0, 0, 1, 1, 1, 1, 1, 0, 0, 0, 0],
     [0, 0, 0, 0, 1, 1, 1, 0, 0, 0, 0, 0],
     [0, 0, 0, 0, 0, 1, 0, 0, 0, 0, 0, 0],
     [0, 0, 0, 0, 0, 0, 0, 0, 0, 0, 0, 0]]"
  by (simp add: frame_full_def aggregate_init_def aggregate_init_row_def)

lemma frame_med_cells:
  "frame_med =
    [[0, 0, 0, 1, 0, 0, 0, 1, 0, 0, 0, 0],
     [0, 0, 1, 1, 1, 0, 1, 1, 1, 0, 0, 0],
     [0, 0, 1, 1, 1, 1, 1, 1, 1, 0, 0, 0],
     [0, 0, 0, 1, 1, 1, 1, 1, 0, 0, 0, 0],
     [0, 0, 0, 0, 1, 1, 1, 0, 0, 0, 0, 0],
     [0, 0, 0, 0, 0, 1, 0, 0, 0, 0, 0, 0],
     [0, 0, 0, 0, 0, 0, 0, 0, 0, 0, 0, 0],
     [0, 0, 0, 0, 0, 0, 0, 0, 0, 0, 0, 0]]"
  by (simp add: frame_med_def aggregate_init_def aggregate_init_row_def)

lemma frame_small_cells:
  "frame_small =
    [[0, 0, 0, 0, 0, 0, 0, 0, 0, 0, 0, 0],
     [0, 0, 0, 1, 0, 0, 0, 1, 0, 0, 0, 0],
     [0, 0, 0, 1, 1, 0, 1, 1, 0, 0, 0, 0],
     [0, 0, 0, 0, 1, 1, 1, 0, 0, 0, 0, 0],
     [0, 0, 0, 0, 0, 1, 0, 0, 0, 0, 0, 0],
     [0, 0, 0, 0, 0, 0, 0, 0, 0, 0, 0, 0],
     [0, 0, 0, 0, 0, 0, 0, 0, 0, 0, 0, 0],
     [0, 0, 0, 0, 0, 0, 0, 0, 0, 0, 0, 0]]"
  by (simp add: frame_small_def aggregate_init_def aggregate_init_row_def)

lemma frame_off_cells:
  "frame_off =
    [[0, 0, 0, 0, 0, 0, 0, 0, 0, 0, 0, 0],
     [0, 0, 0, 0, 0, 0, 0, 0, 0, 0, 0, 0],
     [0, 0, 0, 0, 0, 0, 0, 0, 0, 0, 0, 0],
     [0, 0, 0, 0, 0, 0, 0, 0, 0, 0, 0, 0],
     [0, 0, 0, 0, 0, 0, 0, 0, 0, 0, 0, 0],
     [0, 0, 0, 0, 0, 0, 0, 0, 0, 0, 0, 0],
     [0, 0, 0, 0, 0, 0, 0, 0, 0, 0, 0, 0],
     [0, 0, 0, 0, 0, 0, 0, 0, 0, 0, 0, 0]]"
  by (simp add: frame_off_def aggregate_init_def aggregate_init_row_def eval_nat_numeral)

text \<open>Quantification over the 96 cell positions, as a finite check.\<close>

lemma all_cells_iff:
  "(\<forall>r<8. \<forall>c<12. Q r c) = list_all (\<lambda>r. list_all (\<lambda>c. Q r c) [0..<12]) [0..<8]"
  by (auto simp: list_all_iff)

lemma all_rows_iff:
  "(\<forall>r<8. R r) = list_all R [0..<8]"
  by (auto simp: list_all_iff)

subsection \<open>What one call does to the state\<close>

lemma initMatrix_step:
  "initMatrix s = s\<lparr>trace := trace s @ [Begin]\<rparr>"
  by (simp add: initMatrix_def matrix_begin_def)

lemma updateMatrixAnimation_step:
  "updateMatrixAnimation s = s\<lparr>trace := trace s @
     [RenderBitmap (mem_frame_small s) 8 12, Delay 100,
      RenderBitmap (mem_frame_med s) 8 12, Delay 100,
      RenderBitmap (mem_frame_full s) 8 12, Delay 100,
      RenderBitmap (mem_frame_med s) 8 12, Delay 700,
      RenderBitmap (mem_frame_off s) 8 12]\<rparr>"
  by (simp add: updateMatrixAnimation_def matrix_renderBitmap_def delay_def
      SHORT_def SHORT_GAP_def LONG_GAP_def)

lemma emitted_initMatrix:
  "emitted initMatrix s = [Begin]"
  by (simp add: emitted_def initMatrix_step)

lemma emitted_updateMatrixAnimation:
  "emitted updateMatrixAnimation s =
     [RenderBitmap (mem_frame_small s) 8 12, Delay 100,
      RenderBitmap (mem_frame_med s) 8 12, Delay 100,
      RenderBitmap (mem_frame_full s) 8 12, Delay 100,
      RenderBitmap (mem_frame_med s) 8 12, Delay 700,
      RenderBitmap (mem_frame_off s) 8 12]"
  by (simp add: emitted_def updateMatrixAnimation_step)

lemma updateMatrixAnimation_appends:
  "updateMatrixAnimation s = s\<lparr>trace := trace s @ emitted updateMatrixAnimation s\<rparr>"
  by (simp add: emitted_updateMatrixAnimation) (rule updateMatrixAnimation_step)

lemma emitted_ignores_trace:
  "emitted updateMatrixAnimation (s\<lparr>trace := t\<rparr>) = emitted updateMatrixAnimation s"
  by (simp add: emitted_updateMatrixAnimation)

subsection \<open>The arrays along an execution\<close>

lemma frames_initMatrix:
  "frames (initMatrix s) = frames s"
  by (simp add: frames_def initMatrix_step)

lemma frames_updateMatrixAnimation:
  "frames (updateMatrixAnimation s) = frames s"
  by (simp add: frames_def updateMatrixAnimation_step)

lemma frames_exec:
  "frames (exec c s) = frames s"
  by (cases c) (simp_all add: exec_def frames_initMatrix frames_updateMatrixAnimation)

lemma frames_run:
  "frames (run cs s) = frames s"
unfolding run_def
proof (induction cs arbitrary: s)
  case Nil
  show ?case by simp
next
  case (Cons c cs)
  have "frames (fold exec cs (exec c s)) = frames (exec c s)" by (rule Cons.IH)
  then show ?case by (simp add: frames_exec)
qed

lemma frames_boot:
  "frames boot = (frame_full, frame_med, frame_small, frame_off)"
  by (simp add: frames_def boot_def)

lemma frames_reachable:
  "frames (run cs boot) = (frame_full, frame_med, frame_small, frame_off)"
  by (simp add: frames_run frames_boot)

lemma mem_reachable:
  "mem_frame_full (run cs boot) = frame_full"
  "mem_frame_med (run cs boot) = frame_med"
  "mem_frame_small (run cs boot) = frame_small"
  "mem_frame_off (run cs boot) = frame_off"
  using frames_reachable [of cs] by (simp_all add: frames_def)

subsection \<open>Repeated invocation\<close>

lemma concat_replicate_snoc:
  "concat (replicate n b) @ b = concat (replicate (Suc n) b)"
  by (induction n) simp_all

lemma updateMatrixAnimation_funpow:
  "(updateMatrixAnimation ^^ n) s =
     s\<lparr>trace := trace s @ concat (replicate n (emitted updateMatrixAnimation s))\<rparr>"
proof (induction n)
  case 0
  show ?case by simp
next
  case (Suc n)
  let ?b = "emitted updateMatrixAnimation s"
  let ?t = "trace s @ concat (replicate n ?b)"
  have "(updateMatrixAnimation ^^ Suc n) s = updateMatrixAnimation (s\<lparr>trace := ?t\<rparr>)"
    by (simp add: Suc.IH)
  also have "\<dots> = s\<lparr>trace := ?t @ emitted updateMatrixAnimation (s\<lparr>trace := ?t\<rparr>)\<rparr>"
    by (subst updateMatrixAnimation_appends) simp
  also have "\<dots> = s\<lparr>trace := ?t @ ?b\<rparr>"
    by (simp only: emitted_ignores_trace)
  also have "?t @ ?b = trace s @ concat (replicate (Suc n) ?b)"
    by (simp only: append_assoc concat_replicate_snoc)
  finally show ?case .
qed

section \<open>The claims\<close>

text \<open>
  C1. Every invocation of \<open>updateMatrixAnimation\<close> issues exactly this sequence of effects:
  render \<open>frame_small\<close>, wait 100 ms, render \<open>frame_med\<close>, wait 100 ms, render \<open>frame_full\<close>,
  wait 100 ms, render \<open>frame_med\<close>, wait 700 ms, render \<open>frame_off\<close>; nothing follows the last
  render and nothing else is rendered or waited for. In any state the frames rendered are
  the current contents of the four arrays; in every state that the program reaches from
  start-up these are the four bitmaps of the source.
\<close>

theorem updateMatrixAnimation_effects:
  "trace (updateMatrixAnimation s) = trace s @
     [RenderBitmap (mem_frame_small s) 8 12, Delay 100,
      RenderBitmap (mem_frame_med s) 8 12, Delay 100,
      RenderBitmap (mem_frame_full s) 8 12, Delay 100,
      RenderBitmap (mem_frame_med s) 8 12, Delay 700,
      RenderBitmap (mem_frame_off s) 8 12]
   \<and> trace (updateMatrixAnimation (run cs boot)) = trace (run cs boot) @
     [RenderBitmap frame_small 8 12, Delay 100,
      RenderBitmap frame_med 8 12, Delay 100,
      RenderBitmap frame_full 8 12, Delay 100,
      RenderBitmap frame_med 8 12, Delay 700,
      RenderBitmap frame_off 8 12]"
  by (simp add: updateMatrixAnimation_step mem_reachable)

text \<open>
  C2. Each of \<open>frame_full\<close>, \<open>frame_med\<close>, \<open>frame_small\<close> and \<open>frame_off\<close> has exactly 8 rows,
  every row has exactly 12 cells, and every cell is 0 or 1.
\<close>

theorem frames_binary_8x12:
  "binary_8x12 frame_full \<and> binary_8x12 frame_med \<and> binary_8x12 frame_small \<and> binary_8x12 frame_off"
  by (simp add: binary_8x12_def frame_full_cells frame_med_cells frame_small_cells frame_off_cells)

text \<open>
  C3. Every cell of \<open>frame_off\<close> is 0: the array has 8 rows of 12 cells, and for every row
  index below 8 and every column index below 12 the cell there equals 0.
\<close>

theorem frame_off_all_zero:
  "length frame_off = 8 \<and>
   (\<forall>r<8. length (frame_off ! r) = 12 \<and> (\<forall>c<12. frame_off ! r ! c = 0))"
proof -
  have rows: "\<forall>r<8. length (frame_off ! r) = 12"
    unfolding all_rows_iff frame_off_cells by (simp add: upt_rec)
  have cells: "\<forall>r<8. \<forall>c<12. frame_off ! r ! c = 0"
    unfolding all_cells_iff frame_off_cells by (simp add: upt_rec)
  have "length frame_off = 8" by (simp add: frame_off_cells)
  with rows cells show ?thesis by blast
qed

theorem frame_off_all_zero_witness:
  "(7::nat) < 8 \<and> (11::nat) < 12 \<and> length (frame_off ! 7) = 12 \<and> frame_off ! 7 ! 11 = 0"
  using frame_off_all_zero by simp

text \<open>
  C4. No operation of the program writes a frame: \<open>initMatrix\<close> and \<open>updateMatrixAnimation\<close>
  leave all four arrays as they found them, so does any sequence of invocations, and after
  any sequence of invocations from start-up the arrays hold the values they were
  initialised with.
\<close>

theorem frames_never_written:
  "frames (initMatrix s) = frames s
   \<and> frames (updateMatrixAnimation s) = frames s
   \<and> frames (run cs s) = frames s
   \<and> frames (run cs boot) = (frame_full, frame_med, frame_small, frame_off)"
  by (simp add: frames_initMatrix frames_updateMatrixAnimation frames_run frames_boot)

text \<open>
  C5. \<open>N\<close> successive invocations of \<open>updateMatrixAnimation\<close> add to the log \<open>N\<close> copies of what
  the first invocation emits and change nothing else in the state; an invocation after any
  number of earlier ones emits what the first one does; from any state reached after
  start-up the log grows by \<open>N\<close> copies of the five-render, four-delay heartbeat.
\<close>

theorem updateMatrixAnimation_repeated:
  "(updateMatrixAnimation ^^ N) s =
     s\<lparr>trace := trace s @ concat (replicate N (emitted updateMatrixAnimation s))\<rparr>
   \<and> emitted updateMatrixAnimation ((updateMatrixAnimation ^^ N) s) = emitted updateMatrixAnimation s
   \<and> frames ((updateMatrixAnimation ^^ N) s) = frames s
   \<and> trace ((updateMatrixAnimation ^^ N) (run cs boot)) = trace (run cs boot) @ concat (replicate N
     [RenderBitmap frame_small 8 12, Delay 100,
      RenderBitmap frame_med 8 12, Delay 100,
      RenderBitmap frame_full 8 12, Delay 100,
      RenderBitmap frame_med 8 12, Delay 700,
      RenderBitmap frame_off 8 12])"
proof -
  have rep: "(updateMatrixAnimation ^^ N) s' =
      s'\<lparr>trace := trace s' @ concat (replicate N (emitted updateMatrixAnimation s'))\<rparr>" for s'
    by (rule updateMatrixAnimation_funpow)
  have same: "emitted updateMatrixAnimation ((updateMatrixAnimation ^^ N) s) =
      emitted updateMatrixAnimation s"
    by (subst rep) (rule emitted_ignores_trace)
  have kept: "frames ((updateMatrixAnimation ^^ N) s) = frames s"
    by (subst rep) (simp add: frames_def)
  have boot: "trace ((updateMatrixAnimation ^^ N) (run cs boot)) =
      trace (run cs boot) @ concat (replicate N
     [RenderBitmap frame_small 8 12, Delay 100,
      RenderBitmap frame_med 8 12, Delay 100,
      RenderBitmap frame_full 8 12, Delay 100,
      RenderBitmap frame_med 8 12, Delay 700,
      RenderBitmap frame_off 8 12])"
    by (subst rep) (simp add: emitted_updateMatrixAnimation mem_reachable)
  from rep [of s] same kept boot show ?thesis by blast
qed

text \<open>
  C6. The timing constants are \<open>SHORT = 100\<close>, \<open>SHORT_GAP = 100\<close> and \<open>LONG_GAP = 700\<close>
  (milliseconds, as unsigned 32-bit values), and the delays of one invocation of
  \<open>updateMatrixAnimation\<close> are, in order, \<open>SHORT\<close>, \<open>SHORT_GAP\<close>, \<open>SHORT\<close>, \<open>LONG_GAP\<close>: no other
  duration is used.
\<close>

theorem timing_constants:
  "SHORT = 100 \<and> SHORT_GAP = 100 \<and> LONG_GAP = 700
   \<and> unat SHORT = 100 \<and> unat SHORT_GAP = 100 \<and> unat LONG_GAP = 700
   \<and> delays (emitted updateMatrixAnimation s) = [SHORT, SHORT_GAP, SHORT, LONG_GAP]"
  by (simp add: SHORT_def SHORT_GAP_def LONG_GAP_def emitted_updateMatrixAnimation)

text \<open>
  C7. \<open>initMatrix\<close> only sets the hardware up: it calls the driver's \<open>begin\<close> exactly once,
  renders no frame, issues no delay, and hands nothing back but the state, in which
  nothing else has changed.
\<close>

theorem initMatrix_effects:
  "initMatrix s = s\<lparr>trace := trace s @ [Begin]\<rparr>
   \<and> emitted initMatrix s = [Begin]
   \<and> renders (emitted initMatrix s) = []
   \<and> delays (emitted initMatrix s) = []"
  by (simp add: initMatrix_step emitted_initMatrix)

text \<open>
  C8. Every \<open>renderBitmap\<close> call of the sequencer passes the row count 8 and the column
  count 12 (from any state, in each of its five calls), and in every state reached from
  start-up the frame passed has just these dimensions: 8 rows of 12 cells.
\<close>

theorem renderBitmap_dimensions:
  "list_all (\<lambda>(f, rows, cols). rows = 8 \<and> cols = 12)
     (renders (emitted updateMatrixAnimation s))
   \<and> length (renders (emitted updateMatrixAnimation s)) = 5
   \<and> list_all (\<lambda>(f, rows, cols). rows = 8 \<and> cols = 12 \<and> length f = rows \<and>
               list_all (\<lambda>row. length row = cols) f)
       (renders (emitted updateMatrixAnimation (run cs boot)))
   \<and> length (renders (emitted updateMatrixAnimation (run cs boot))) = 5"
  by (simp add: emitted_updateMatrixAnimation mem_reachable
      frame_full_cells frame_med_cells frame_small_cells frame_off_cells)

text \<open>
  C9. \<open>updateMatrixAnimation\<close> is a fixed sequence of calls with no branch and no loop: from
  every state it returns, having extended the log and changed nothing else, and what it
  added is always render, delay, render, delay, render, delay, render, delay, render:
  five renders and four delays, whatever the state before.
\<close>

theorem updateMatrixAnimation_steps:
  "updateMatrixAnimation s = s\<lparr>trace := trace s @ emitted updateMatrixAnimation s\<rparr>
   \<and> map step_of (emitted updateMatrixAnimation s) =
       [RenderStep, DelayStep, RenderStep, DelayStep, RenderStep, DelayStep, RenderStep,
        DelayStep, RenderStep]
   \<and> length (renders (emitted updateMatrixAnimation s)) = 5
   \<and> length (delays (emitted updateMatrixAnimation s)) = 4"
  using updateMatrixAnimation_appends [of s] by (simp add: emitted_updateMatrixAnimation)

text \<open>
  C10. The hearts are nested cell by cell: at every row index below 8 and column index
  below 12, a cell lit in \<open>frame_small\<close> is lit in \<open>frame_med\<close>, and a cell lit in \<open>frame_med\<close> is
  lit in \<open>frame_full\<close>.
\<close>

theorem hearts_nested:
  "\<forall>r<8. \<forall>c<12.
     (frame_small ! r ! c = 1 \<longrightarrow> frame_med ! r ! c = 1) \<and>
     (frame_med ! r ! c = 1 \<longrightarrow> frame_full ! r ! c = 1)"
  unfolding all_cells_iff frame_small_cells frame_med_cells frame_full_cells
  by (simp add: upt_rec)

theorem hearts_nested_witness:
  "(1::nat) < 8 \<and> (3::nat) < 12 \<and>
   frame_small ! 1 ! 3 = 1 \<and> frame_med ! 1 ! 3 = 1 \<and> frame_full ! 1 ! 3 = 1"
  using hearts_nested [rule_format, of 1 3] by (simp add: frame_small_cells)

end
